theory Spec2Isabelle
  imports Complex_Main
begin

section \<open>The watershed delineator page: one script run as a function\<close>

text \<open>
  The program is a single Streamlit script, \<^verbatim>\<open>app/app last delineated.py\<close>.
  Streamlit executes the script from top to bottom on every user interaction; the only
  memory between two executions is the dictionary \<^verbatim>\<open>st.session_state\<close>. One
  execution is modelled as the function \<open>script\<close>: it takes what the outside world
  answers during this execution (the record \<open>env\<close>: widget values, the delineation
  routine, the file system, the layer reader, the map component) and the session
  dictionary, and returns how the execution ended, the session dictionary it leaves, and
  what it put on the page, in order.
\<close>

subsection \<open>Floats\<close>

text \<open>
  Coordinates are Python/numpy floats. A float is either finite, an infinity or
  not-a-number. Finite values are modelled as exact reals: rounding, overflow of a
  finite sum and signed zeros are not modelled. What the script depends on is modelled
  as IEEE 754 has it: \<open>x != x\<close> holds exactly for not-a-number, a sum with
  not-a-number or of opposite infinities is not-a-number, and an infinity absorbs a
  finite summand.
\<close>

datatype fl = Fin real | PInf | NInf | NaN

definition fl_ne :: "fl \<Rightarrow> fl \<Rightarrow> bool" where
  "fl_ne x y = (x = NaN \<or> y = NaN \<or> x \<noteq> y)"

fun fl_add :: "fl \<Rightarrow> fl \<Rightarrow> fl" where
  "fl_add (Fin a) (Fin b) = Fin (a + b)"
| "fl_add NaN y = NaN"
| "fl_add x NaN = NaN"
| "fl_add PInf NInf = NaN"
| "fl_add NInf PInf = NaN"
| "fl_add PInf y = PInf"
| "fl_add x PInf = PInf"
| "fl_add NInf y = NInf"
| "fl_add x NInf = NInf"

text \<open>Division by the literal \<^verbatim>\<open>2\<close> of lines 75 and 76.\<close>

fun fl_div_2 :: "fl \<Rightarrow> fl" where
  "fl_div_2 (Fin a) = Fin (a / 2)"
| "fl_div_2 x = x"


subsection \<open>Values held by the session dictionary\<close>

text \<open>
  A click is the dictionary \<^verbatim>\<open>{"lat": ..., "lng": ...}\<close> that the map component
  reports. The session dictionary holds \<^verbatim>\<open>None\<close>, a click, a string (a path or a
  GeoJSON text), a list of floats (\<^verbatim>\<open>map_center\<close>) or a list of lists of floats
  (\<^verbatim>\<open>map_bounds\<close>).
\<close>

record click =
  lat :: fl
  lng :: fl

datatype val =
    PyNone
  | Click click
  | Str string
  | FList "fl list"
  | FLists "fl list list"

type_synonym session = "string \<rightharpoonup> val"

text \<open>Python truthiness, as used by \<^verbatim>\<open>if st.session_state["last_click"] and ...\<close>.\<close>

fun truthy :: "val \<Rightarrow> bool" where
  "truthy PyNone = False"
| "truthy (Click c) = True"
| "truthy (Str t) = (t \<noteq> [])"
| "truthy (FList xs) = (xs \<noteq> [])"
| "truthy (FLists xs) = (xs \<noteq> [])"

subsection \<open>The outside world\<close>

datatype exn = Exn string

text \<open>
  A layer that was read: its GeoJSON text (\<^verbatim>\<open>.to_json()\<close>) and its extent
  (\<^verbatim>\<open>.total_bounds\<close>, always four floats \<^verbatim>\<open>[minx, miny, maxx, maxy]\<close>).
  \<^verbatim>\<open>to_json\<close> is folded into the read: in each of the four places of the script a
  failure of \<^verbatim>\<open>to_json\<close> reaches the same handler as a failure of the read before it.
\<close>

record gdf =
  to_json :: string
  total_bounds :: "fl \<times> fl \<times> fl \<times> fl"

record env =
  reset_button :: bool
  wid_field :: "string option"
  area_field :: "fl option"
  delineate_button :: bool
  delineate_point :: "fl \<Rightarrow> fl \<Rightarrow> string \<Rightarrow> fl option \<Rightarrow> exn + string"
  path_exists :: "string \<Rightarrow> bool"
  listlayers :: "string \<Rightarrow> exn + string list"
  read_file :: "string \<Rightarrow> string option \<Rightarrow> exn + gdf"
  fit_bounds :: "val \<Rightarrow> exn + unit"
  last_clicked :: "click option"
  read_bytes :: "string \<Rightarrow> exn + string"

text \<open>
  \<^item> \<open>reset_button\<close>, \<open>delineate_button\<close>: whether this execution was triggered by
    that button (\<^verbatim>\<open>st.button\<close> returns \<^verbatim>\<open>True\<close> only then).
  \<^item> \<open>wid_field\<close>, \<open>area_field\<close>: what the user has typed into the two sidebar fields,
    \<open>None\<close> when the field was never edited.
  \<^item> \<open>delineate_point\<close>: the external routine; it returns a path or raises.
  \<^item> \<open>path_exists\<close>: \<^verbatim>\<open>Path(p).exists()\<close>.
  \<^item> \<open>listlayers\<close>: \<^verbatim>\<open>fiona.listlayers(p)\<close>.
  \<^item> \<open>read_file\<close>: \<^verbatim>\<open>gpd.read_file(p)\<close> (layer \<open>None\<close>) and
    \<^verbatim>\<open>gpd.read_file(p, layer=l)\<close> (layer \<open>Some l\<close>).
  \<^item> \<open>fit_bounds\<close>: \<^verbatim>\<open>m.fit_bounds(v)\<close>.
  \<^item> \<open>last_clicked\<close>: \<^verbatim>\<open>result["last_clicked"]\<close> of the map component.
  \<^item> \<open>read_bytes\<close>: \<^verbatim>\<open>open(p, "rb").read()\<close>.
\<close>

subsection \<open>What one execution puts on the page\<close>

text \<open>
  One constructor per call site, with the values the message is formatted from (the
  fixed wording and the pictograms of the messages are left out). \<open>Delineate_call\<close>
  records the call of the external routine with its four arguments.
\<close>

record scene =
  location :: val
  zoom_start :: nat
  tiles :: string
  overlays :: "(string \<times> val) list"
  fitted :: "val option"

datatype page_out =
    Selected_point fl fl
  | Delineate_call fl fl string "fl option"
  | Err_not_created string
  | Success_complete
  | Output_file string
  | Available_layers "string list"
  | Warn_streams
  | Warn_snap_point
  | Warn_requested_point
  | Warn_invalid_bounds
  | Center_written val
  | Bounds_written val
  | Err_load_failed exn
  | Warn_fit_bounds exn
  | Map_shown scene
  | Download_gpkg string string
  | Download_geojson val string

text \<open>
  \<^item> \<open>Selected_point lat lon\<close>: line 33. \<open>Err_not_created p\<close>: line 39.
    \<open>Success_complete\<close>, \<open>Output_file p\<close>: lines 41 and 42.
    \<open>Available_layers ls\<close>: line 48.
  \<^item> \<open>Warn_streams\<close>, \<open>Warn_snap_point\<close>, \<open>Warn_requested_point\<close>: lines 58, 63, 68.
    \<open>Warn_invalid_bounds\<close>: line 73. \<open>Center_written\<close>, \<open>Bounds_written\<close>: lines 79
    and 80. \<open>Err_load_failed e\<close>: line 83. \<open>Warn_fit_bounds e\<close>: line 136.
  \<^item> \<open>Map_shown m\<close>: line 140. \<open>Download_gpkg bytes p\<close>: lines 148 to 152, the file
    name offered is the last component of \<open>p\<close>. \<open>Download_geojson data name\<close>: lines
    155 to 160.
\<close>

datatype status = Completed | Rerun | Raised exn

subsection \<open>Sidebar widgets (lines 23 to 28)\<close>

definition text_input :: "string \<Rightarrow> string option \<Rightarrow> string" where
  "text_input value_arg typed = (case typed of None \<Rightarrow> value_arg | Some t \<Rightarrow> t)"

definition number_input :: "fl option \<Rightarrow> fl option \<Rightarrow> fl option" where
  "number_input value_arg typed = (case typed of None \<Rightarrow> value_arg | Some x \<Rightarrow> Some x)"

subsection \<open>Loading the layers (the \<^verbatim>\<open>try\<close> block, lines 45 to 83)\<close>

text \<open>The test of line 72 on one element; an element of a numpy array is never \<^verbatim>\<open>None\<close>.\<close>

definition nan_check :: "fl \<Rightarrow> bool" where
  "nan_check x = fl_ne x x"

definition bounding_box :: "fl \<times> fl \<times> fl \<times> fl \<Rightarrow> session \<Rightarrow> session \<times> page_out list" where
  "bounding_box bounds s =
     (case bounds of (b0, b1, b2, b3) \<Rightarrow>
        if list_ex nan_check [b0, b1, b2, b3] then (s, [Warn_invalid_bounds])
        else
          let center_lat = fl_div_2 (fl_add b1 b3);
              center_lon = fl_div_2 (fl_add b0 b2);
              s1 = s(''map_center'' \<mapsto> FList [center_lat, center_lon]);
              s2 = s1(''map_bounds'' \<mapsto> FLists [[b1, b0], [b3, b2]])
          in (s2, [Center_written (FList [center_lat, center_lon]),
                   Bounds_written (FLists [[b1, b0], [b3, b2]])]))"

definition load_streams :: "env \<Rightarrow> string \<Rightarrow> session \<Rightarrow> session \<times> page_out list" where
  "load_streams env p s =
     (case read_file env p (Some ''streams'') of
        Inr g \<Rightarrow> (s(''streams'' \<mapsto> Str (to_json g)), [])
      | Inl e \<Rightarrow> (s, [Warn_streams]))"

definition load_snap_point :: "env \<Rightarrow> string \<Rightarrow> session \<Rightarrow> session \<times> page_out list" where
  "load_snap_point env p s =
     (case read_file env p (Some ''snap_point'') of
        Inr g \<Rightarrow> (s(''snap_point'' \<mapsto> Str (to_json g)), [])
      | Inl e \<Rightarrow> (s, [Warn_snap_point]))"

definition load_requested_point :: "env \<Rightarrow> string \<Rightarrow> session \<Rightarrow> session \<times> page_out list" where
  "load_requested_point env p s =
     (case read_file env p (Some ''pour_point'') of
        Inr g \<Rightarrow> (s(''requested_point'' \<mapsto> Str (to_json g)), [])
      | Inl e \<Rightarrow> (s, [Warn_requested_point]))"

definition load_layers :: "env \<Rightarrow> string \<Rightarrow> session \<Rightarrow> session \<times> page_out list" where
  "load_layers env p s =
     (case listlayers env p of
        Inl e \<Rightarrow> (s, [Err_load_failed e])
      | Inr available_layers \<Rightarrow>
          (case read_file env p None of
             Inl e \<Rightarrow> (s, [Available_layers available_layers, Err_load_failed e])
           | Inr watershed_gdf \<Rightarrow>
               let s1 = s(''geojson'' \<mapsto> Str (to_json watershed_gdf));
                   (s2, o2) = load_streams env p s1;
                   (s3, o3) = load_snap_point env p s2;
                   (s4, o4) = load_requested_point env p s3;
                   (s5, o5) = bounding_box (total_bounds watershed_gdf) s4
               in (s5, [Available_layers available_layers] @ o2 @ o3 @ o4 @ o5)))"

subsection \<open>Running the delineator (lines 31 to 83)\<close>

text \<open>
  The result is the exception that ended the execution, if any, the session dictionary
  and the page output of the block. The button is only evaluated when the stored click
  is truthy. A truthy value that is not a click cannot be indexed by \<^verbatim>\<open>"lat"\<close>.
\<close>

definition run_delineator ::
  "env \<Rightarrow> string \<Rightarrow> fl option \<Rightarrow> session \<Rightarrow> exn option \<times> session \<times> page_out list" where
  "run_delineator env wid area s =
     (case s ''last_click'' of
        None \<Rightarrow> (Some (Exn ''KeyError''), s, [])
      | Some v \<Rightarrow>
          if \<not> (truthy v \<and> delineate_button env) then (None, s, [])
          else
            (case v of
               Click c \<Rightarrow>
                 (case delineate_point env (lat c) (lng c) wid area of
                    Inl e \<Rightarrow>
                      (Some e, s, [Selected_point (lat c) (lng c),
                                   Delineate_call (lat c) (lng c) wid area])
                  | Inr gpkg_path \<Rightarrow>
                      if \<not> path_exists env gpkg_path then
                        (None, s, [Selected_point (lat c) (lng c),
                                   Delineate_call (lat c) (lng c) wid area,
                                   Err_not_created gpkg_path])
                      else
                        let s1 = s(''gpkg_path'' \<mapsto> Str gpkg_path);
                            (s2, o2) = load_layers env gpkg_path s1
                        in (None, s2,
                            [Selected_point (lat c) (lng c),
                             Delineate_call (lat c) (lng c) wid area,
                             Success_complete, Output_file gpkg_path] @ o2))
             | _ \<Rightarrow> (Some (Exn ''TypeError''), s, [])))"

subsection \<open>The map (lines 86 to 140)\<close>

definition add_layer :: "session \<Rightarrow> string \<Rightarrow> string \<Rightarrow> (string \<times> val) list" where
  "add_layer s key name = (case s key of None \<Rightarrow> [] | Some data \<Rightarrow> [(name, data)])"

definition map_setup :: "session \<Rightarrow> scene" where
  "map_setup s =
     \<lparr> location = (case s ''map_center'' of
                     None \<Rightarrow> FList [Fin 4.6, Fin (- 74.1)]
                   | Some v \<Rightarrow> v),
       zoom_start = 9,
       tiles = ''OpenStreetMap'',
       overlays = add_layer s ''geojson'' ''Watershed''
                @ add_layer s ''streams'' ''Rivers''
                @ add_layer s ''requested_point'' ''Requested''
                @ add_layer s ''snap_point'' ''Snapped to river centerline'',
       fitted = None \<rparr>"

definition fit_map :: "env \<Rightarrow> session \<Rightarrow> scene \<Rightarrow> scene \<times> page_out list" where
  "fit_map env s m =
     (case s ''map_bounds'' of
        None \<Rightarrow> (m, [])
      | Some b \<Rightarrow>
          (case fit_bounds env b of
             Inr u \<Rightarrow> (m\<lparr>fitted := Some b\<rparr>, [])
           | Inl e \<Rightarrow> (m, [Warn_fit_bounds e])))"

definition map_display :: "env \<Rightarrow> session \<Rightarrow> page_out list" where
  "map_display env s = (case fit_map env s (map_setup s) of (m, o1) \<Rightarrow> o1 @ [Map_shown m])"

subsection \<open>Click capture (lines 143 and 144)\<close>

definition click_capture :: "env \<Rightarrow> session \<Rightarrow> session" where
  "click_capture env s =
     (case last_clicked env of
        None \<Rightarrow> s
      | Some c \<Rightarrow> s(''last_click'' \<mapsto> Click c))"

subsection \<open>Downloads (lines 147 to 160)\<close>

definition download_gpkg :: "env \<Rightarrow> session \<Rightarrow> exn option \<times> page_out list" where
  "download_gpkg env s =
     (case s ''gpkg_path'' of
        None \<Rightarrow> (None, [])
      | Some (Str p) \<Rightarrow>
          (case read_bytes env p of
             Inl e \<Rightarrow> (Some e, [])
           | Inr bytes \<Rightarrow> (None, [Download_gpkg bytes p]))
      | Some _ \<Rightarrow> (Some (Exn ''TypeError''), []))"

definition download_geojson :: "string \<Rightarrow> session \<Rightarrow> page_out list" where
  "download_geojson wid s =
     (case s ''geojson'' of
        None \<Rightarrow> []
      | Some data \<Rightarrow> [Download_geojson data (wid @ ''.geojson'')])"

subsection \<open>The whole script\<close>

text \<open>
  Lines 13 to 15: the reset button clears the dictionary and asks Streamlit for a fresh
  execution, which ends this one. Lines 18 and 19 make sure the key \<^verbatim>\<open>last_click\<close>
  exists. An exception ends the execution where it is raised; what was written to the
  dictionary and to the page before stays.
\<close>

definition init_last_click :: "session \<Rightarrow> session" where
  "init_last_click s = (if s ''last_click'' = None then s(''last_click'' \<mapsto> PyNone) else s)"

definition downloads :: "env \<Rightarrow> string \<Rightarrow> session \<Rightarrow> exn option \<times> page_out list" where
  "downloads env wid s =
     (case download_gpkg env s of
        (Some e, o4) \<Rightarrow> (Some e, o4)
      | (None, o4) \<Rightarrow> (None, o4 @ download_geojson wid s))"

definition script :: "env \<Rightarrow> session \<Rightarrow> status \<times> session \<times> page_out list" where
  "script env s0 =
     (if reset_button env then (Rerun, Map.empty, [])
      else
        let s1 = init_last_click s0;
            wid = text_input ''custom'' (wid_field env);
            area = number_input None (area_field env)
        in case run_delineator env wid area s1 of
             (Some e, s2, o2) \<Rightarrow> (Raised e, s2, o2)
           | (None, s2, o2) \<Rightarrow>
               let o3 = map_display env s2;
                   s3 = click_capture env s2
               in (case downloads env wid s3 of
                     (Some e, o4) \<Rightarrow> (Raised e, s3, o2 @ o3 @ o4)
                   | (None, o4) \<Rightarrow> (Completed, s3, o2 @ o3 @ o4)))"

text \<open>The keys that hold the outcome of a run, as opposed to the stored click.\<close>

definition run_keys :: "string list" where
  "run_keys = [''gpkg_path'', ''geojson'', ''streams'', ''snap_point'',
               ''requested_point'', ''map_center'', ''map_bounds'']"

definition sess_of :: "status \<times> session \<times> page_out list \<Rightarrow> session" where
  "sess_of r = fst (snd r)"

definition out_of :: "status \<times> session \<times> page_out list \<Rightarrow> page_out list" where
  "out_of r = snd (snd r)"

definition status_of :: "status \<times> session \<times> page_out list \<Rightarrow> status" where
  "status_of r = fst r"

subsection \<open>Several executions in a row\<close>


subsection \<open>Notions used to state the properties\<close>

text \<open>
  What an optional layer read leaves under its key, given what the key held before, and
  the warning it puts on the page.
\<close>

definition overlay_after :: "env \<Rightarrow> string \<Rightarrow> string \<Rightarrow> val option \<Rightarrow> val option" where
  "overlay_after env p layer old =
     (case read_file env p (Some layer) of
        Inr g \<Rightarrow> Some (Str (to_json g))
      | Inl e \<Rightarrow> old)"

definition overlay_warning :: "env \<Rightarrow> string \<Rightarrow> string \<Rightarrow> page_out \<Rightarrow> page_out list" where
  "overlay_warning env p layer w =
     (case read_file env p (Some layer) of Inr g \<Rightarrow> [] | Inl e \<Rightarrow> [w])"

text \<open>
  What the bounding box block leaves under \<^verbatim>\<open>map_center\<close> and \<^verbatim>\<open>map_bounds\<close>,
  given what the keys held before, and what it puts on the page.
\<close>

definition has_nan :: "fl \<times> fl \<times> fl \<times> fl \<Rightarrow> bool" where
  "has_nan b = (case b of (b0, b1, b2, b3) \<Rightarrow> b0 = NaN \<or> b1 = NaN \<or> b2 = NaN \<or> b3 = NaN)"

definition center_after :: "fl \<times> fl \<times> fl \<times> fl \<Rightarrow> val option \<Rightarrow> val option" where
  "center_after b old =
     (case b of (b0, b1, b2, b3) \<Rightarrow>
        if has_nan b then old
        else Some (FList [fl_div_2 (fl_add b1 b3), fl_div_2 (fl_add b0 b2)]))"

definition bounds_after :: "fl \<times> fl \<times> fl \<times> fl \<Rightarrow> val option \<Rightarrow> val option" where
  "bounds_after b old =
     (case b of (b0, b1, b2, b3) \<Rightarrow>
        if has_nan b then old else Some (FLists [[b1, b0], [b3, b2]]))"

definition viewport_out :: "fl \<times> fl \<times> fl \<times> fl \<Rightarrow> page_out list" where
  "viewport_out b =
     (case b of (b0, b1, b2, b3) \<Rightarrow>
        if has_nan b then [Warn_invalid_bounds]
        else [Center_written (FList [fl_div_2 (fl_add b1 b3), fl_div_2 (fl_add b0 b2)]),
              Bounds_written (FLists [[b1, b0], [b3, b2]])])"

text \<open>The dictionary after the layers of an artifact with a readable primary layer were loaded.\<close>

definition after_load :: "env \<Rightarrow> string \<Rightarrow> gdf \<Rightarrow> session \<Rightarrow> session" where
  "after_load env p w s =
     s(''geojson'' \<mapsto> Str (to_json w),
       ''streams'' := overlay_after env p ''streams'' (s ''streams''),
       ''snap_point'' := overlay_after env p ''snap_point'' (s ''snap_point''),
       ''requested_point'' := overlay_after env p ''pour_point'' (s ''requested_point''),
       ''map_center'' := center_after (total_bounds w) (s ''map_center''),
       ''map_bounds'' := bounds_after (total_bounds w) (s ''map_bounds''))"


text \<open>The warnings about optional layers among what was put on the page.\<close>

definition layer_warnings :: "page_out list \<Rightarrow> page_out list" where
  "layer_warnings out =
     filter (\<lambda>x. x = Warn_streams \<or> x = Warn_snap_point \<or> x = Warn_requested_point) out"


subsection \<open>Concrete interactions\<close>

text \<open>
  A click near Bogota, and an interaction in which the user named the watershed
  \<open>river1\<close>, left the area blank and pressed Delineate; the routine writes
  \<^verbatim>\<open>/tmp/out.gpkg\<close> with the watershed and all three optional layers, each layer's
  GeoJSON being written here as the layer's name, and the extent \<open>[0, 1, 2, 3]\<close>.
\<close>

definition click_A :: click where
  "click_A = \<lparr> lat = Fin 4.65, lng = Fin (- 74.05) \<rparr>"

definition env_A :: env where
  "env_A =
     \<lparr> reset_button = False,
       wid_field = Some ''river1'',
       area_field = None,
       delineate_button = True,
       delineate_point = (\<lambda>la lo w a. Inr ''/tmp/out.gpkg''),
       path_exists = (\<lambda>p. True),
       listlayers = (\<lambda>p. Inr [''watershed'', ''streams'', ''snap_point'', ''pour_point'']),
       read_file = (\<lambda>p l. Inr \<lparr> to_json = (case l of None \<Rightarrow> ''watershed'' | Some n \<Rightarrow> n),
                                 total_bounds = (Fin 0, Fin 1, Fin 2, Fin 3) \<rparr>),
       fit_bounds = (\<lambda>v. Inr ()),
       last_clicked = None,
       read_bytes = (\<lambda>p. Inr (''bytes of '' @ p)) \<rparr>"

text \<open>A session in which only a click has been stored, and one that holds an earlier run.\<close>

definition session_fresh :: session where
  "session_fresh = [''last_click'' \<mapsto> Click click_A]"

definition session_prev :: session where
  "session_prev =
     [''last_click'' \<mapsto> Click click_A,
      ''gpkg_path'' \<mapsto> Str ''/tmp/old.gpkg'',
      ''geojson'' \<mapsto> Str ''old watershed'',
      ''streams'' \<mapsto> Str ''old streams'',
      ''snap_point'' \<mapsto> Str ''old snap_point'',
      ''requested_point'' \<mapsto> Str ''old pour_point'',
      ''map_center'' \<mapsto> FList [Fin 10, Fin 20],
      ''map_bounds'' \<mapsto> FLists [[Fin 9, Fin 19], [Fin 11, Fin 21]]]"

text \<open>The routine reports \<^verbatim>\<open>/tmp/out.gpkg\<close>, but no such file exists.\<close>

definition env_missing :: env where
  "env_missing = env_A \<lparr> path_exists := (\<lambda>p. False) \<rparr>"

text \<open>The artifact has the watershed and the streams, but neither point layer.\<close>

definition env_no_points :: env where
  "env_no_points =
     env_A \<lparr> read_file := (\<lambda>p l. if l = Some ''snap_point'' \<or> l = Some ''pour_point''
                                   then Inl (Exn ''layer not found'')
                                   else read_file env_A p l) \<rparr>"

text \<open>The file exists, but its primary layer cannot be read.\<close>

definition env_primary_unreadable :: env where
  "env_primary_unreadable =
     env_A \<lparr> read_file := (\<lambda>p l. if l = None then Inl (Exn ''unreadable'')
                                   else read_file env_A p l) \<rparr>"

text \<open>The artifact lacks the streams layer.\<close>

definition env_no_streams :: env where
  "env_no_streams =
     env_A \<lparr> read_file := (\<lambda>p l. if l = Some ''streams'' then Inl (Exn ''layer not found'')
                                   else read_file env_A p l) \<rparr>"

text \<open>A click reported by the map after it was panned past the date line; no button pressed.\<close>

definition click_far :: click where
  "click_far = \<lparr> lat = Fin 4.6, lng = Fin 190 \<rparr>"

definition env_far_click :: env where
  "env_far_click = env_A \<lparr> delineate_button := False, last_clicked := Some click_far \<rparr>"


text \<open>The file exists, but its layers cannot be listed.\<close>

definition env_no_listing :: env where
  "env_no_listing = env_A \<lparr> listlayers := (\<lambda>p. Inl (Exn ''not a GeoPackage'')) \<rparr>"

text \<open>The artifact has the watershed only.\<close>

definition env_no_overlays :: env where
  "env_no_overlays =
     env_A \<lparr> read_file := (\<lambda>p l. if l = None then read_file env_A p l
                                   else Inl (Exn ''layer not found'')) \<rparr>"


section \<open>Properties\<close>

subsection \<open>How the blocks of the script act on the dictionary and the page\<close>

lemma init_last_click_other: "k \<noteq> ''last_click'' \<Longrightarrow> init_last_click s k = s k"
  by (simp add: init_last_click_def)

lemma init_last_click_present: "s ''last_click'' = Some v \<Longrightarrow> init_last_click s = s"
  by (simp add: init_last_click_def)

lemma click_capture_other: "k \<noteq> ''last_click'' \<Longrightarrow> click_capture env s k = s k"
  by (simp add: click_capture_def split: option.splits)

lemma map_display_items:
  "x \<in> set (map_display env s) \<Longrightarrow> (\<exists>e. x = Warn_fit_bounds e) \<or> (\<exists>m. x = Map_shown m)"
  by (auto simp: map_display_def fit_map_def split: option.splits sum.splits)

lemma downloads_items:
  "x \<in> set (snd (downloads env wid s)) \<Longrightarrow>
     (\<exists>b p. x = Download_gpkg b p) \<or> (\<exists>d n. x = Download_geojson d n)"
  by (auto simp: downloads_def download_gpkg_def download_geojson_def
           split: option.splits sum.splits val.splits)

lemma script_after_run:
  assumes "\<not> reset_button env"
    and "run_delineator env (text_input ''custom'' (wid_field env))
           (number_input None (area_field env)) (init_last_click s) = (None, s2, o2)"
  shows "sess_of (script env s) = click_capture env s2"
    and "out_of (script env s) =
           o2 @ map_display env s2
              @ snd (downloads env (text_input ''custom'' (wid_field env)) (click_capture env s2))"
  using assms
  by (simp_all add: script_def Let_def sess_of_def out_of_def split: prod.splits option.splits)

lemma run_delineator_missing:
  assumes "s ''last_click'' = Some (Click c)"
    and "delineate_button env"
    and "delineate_point env (lat c) (lng c) wid area = Inr p"
    and "\<not> path_exists env p"
  shows "run_delineator env wid area s =
           (None, s, [Selected_point (lat c) (lng c), Delineate_call (lat c) (lng c) wid area,
                      Err_not_created p])"
  using assms by (simp add: run_delineator_def)

lemma nan_check_iff: "nan_check x \<longleftrightarrow> x = NaN"
  by (simp add: nan_check_def fl_ne_def)

lemma bounding_box_eq:
  "bounding_box b s =
     (s(''map_center'' := center_after b (s ''map_center''),
        ''map_bounds'' := bounds_after b (s ''map_bounds'')),
      viewport_out b)"
  by (cases b)
     (auto simp: bounding_box_def center_after_def bounds_after_def viewport_out_def
        has_nan_def nan_check_iff Let_def)

lemma load_layers_no_listing:
  "listlayers env p = Inl e \<Longrightarrow> load_layers env p s = (s, [Err_load_failed e])"
  by (simp add: load_layers_def)

lemma load_layers_no_primary:
  "listlayers env p = Inr ls \<Longrightarrow> read_file env p None = Inl e \<Longrightarrow>
     load_layers env p s = (s, [Available_layers ls, Err_load_failed e])"
  by (simp add: load_layers_def)

lemma load_streams_eq:
  "load_streams env p s =
     (s(''streams'' := overlay_after env p ''streams'' (s ''streams'')),
      overlay_warning env p ''streams'' Warn_streams)"
  by (auto simp: load_streams_def overlay_after_def overlay_warning_def split: sum.splits)

lemma load_snap_point_eq:
  "load_snap_point env p s =
     (s(''snap_point'' := overlay_after env p ''snap_point'' (s ''snap_point'')),
      overlay_warning env p ''snap_point'' Warn_snap_point)"
  by (auto simp: load_snap_point_def overlay_after_def overlay_warning_def split: sum.splits)

lemma load_requested_point_eq:
  "load_requested_point env p s =
     (s(''requested_point'' := overlay_after env p ''pour_point'' (s ''requested_point'')),
      overlay_warning env p ''pour_point'' Warn_requested_point)"
  by (auto simp: load_requested_point_def overlay_after_def overlay_warning_def
           split: sum.splits)

lemma load_layers_primary:
  assumes "listlayers env p = Inr ls" and "read_file env p None = Inr w"
  shows "load_layers env p s =
     (after_load env p w s,
      [Available_layers ls]
        @ overlay_warning env p ''streams'' Warn_streams
        @ overlay_warning env p ''snap_point'' Warn_snap_point
        @ overlay_warning env p ''pour_point'' Warn_requested_point
        @ viewport_out (total_bounds w))"
  using assms
  by (simp add: load_layers_def load_streams_eq load_snap_point_eq load_requested_point_eq
        bounding_box_eq after_load_def Let_def)

lemma run_delineator_found:
  assumes "s ''last_click'' = Some (Click c)"
    and "delineate_button env"
    and "delineate_point env (lat c) (lng c) wid area = Inr p"
    and "path_exists env p"
  shows "run_delineator env wid area s =
           (None, fst (load_layers env p (s(''gpkg_path'' \<mapsto> Str p))),
            [Selected_point (lat c) (lng c), Delineate_call (lat c) (lng c) wid area,
             Success_complete, Output_file p]
            @ snd (load_layers env p (s(''gpkg_path'' \<mapsto> Str p))))"
  using assms by (simp add: run_delineator_def Let_def split: prod.splits)

lemma script_run_found:
  assumes "\<not> reset_button env"
    and "s ''last_click'' = Some (Click c)"
    and "delineate_button env"
    and "delineate_point env (lat c) (lng c) (text_input ''custom'' (wid_field env))
           (number_input None (area_field env)) = Inr p"
    and "path_exists env p"
  shows "sess_of (script env s)
           = click_capture env (fst (load_layers env p (s(''gpkg_path'' \<mapsto> Str p))))"
    and "out_of (script env s)
           = [Selected_point (lat c) (lng c),
              Delineate_call (lat c) (lng c) (text_input ''custom'' (wid_field env))
                (number_input None (area_field env)),
              Success_complete, Output_file p]
             @ snd (load_layers env p (s(''gpkg_path'' \<mapsto> Str p)))
             @ map_display env (fst (load_layers env p (s(''gpkg_path'' \<mapsto> Str p))))
             @ snd (downloads env (text_input ''custom'' (wid_field env))
                     (click_capture env (fst (load_layers env p (s(''gpkg_path'' \<mapsto> Str p))))))"
proof -
  have init: "init_last_click s = s"
    using assms(2) by (rule init_last_click_present)
  have run: "run_delineator env (text_input ''custom'' (wid_field env))
           (number_input None (area_field env)) (init_last_click s)
         = (None, fst (load_layers env p (s(''gpkg_path'' \<mapsto> Str p))),
            [Selected_point (lat c) (lng c),
              Delineate_call (lat c) (lng c) (text_input ''custom'' (wid_field env))
                (number_input None (area_field env)),
              Success_complete, Output_file p]
             @ snd (load_layers env p (s(''gpkg_path'' \<mapsto> Str p))))"
    unfolding init using assms(2,3,4,5) by (rule run_delineator_found)
  show "sess_of (script env s)
           = click_capture env (fst (load_layers env p (s(''gpkg_path'' \<mapsto> Str p))))"
    using assms(1) run by (rule script_after_run(1))
  show "out_of (script env s)
           = [Selected_point (lat c) (lng c),
              Delineate_call (lat c) (lng c) (text_input ''custom'' (wid_field env))
                (number_input None (area_field env)),
              Success_complete, Output_file p]
             @ snd (load_layers env p (s(''gpkg_path'' \<mapsto> Str p)))
             @ map_display env (fst (load_layers env p (s(''gpkg_path'' \<mapsto> Str p))))
             @ snd (downloads env (text_input ''custom'' (wid_field env))
                     (click_capture env (fst (load_layers env p (s(''gpkg_path'' \<mapsto> Str p))))))"
    using script_after_run(2) [OF assms(1) run] by simp
qed

lemma run_keys_click_capture: "map (click_capture env s) run_keys = map s run_keys"
  by (simp add: run_keys_def click_capture_other)

lemma load_layers_items:
  "x \<in> set (snd (load_layers env p s)) \<Longrightarrow>
     (\<exists>ls. x = Available_layers ls) \<or> x = Warn_streams \<or> x = Warn_snap_point
     \<or> x = Warn_requested_point \<or> x = Warn_invalid_bounds \<or> (\<exists>v. x = Center_written v)
     \<or> (\<exists>v. x = Bounds_written v) \<or> (\<exists>e. x = Err_load_failed e)"
proof (cases "listlayers env p")
  case (Inl e)
  assume "x \<in> set (snd (load_layers env p s))"
  with Inl show ?thesis by (simp add: load_layers_no_listing)
next
  case l: (Inr ls)
  assume x: "x \<in> set (snd (load_layers env p s))"
  show ?thesis
  proof (cases "read_file env p None")
    case (Inl e)
    with l x show ?thesis by (auto simp: load_layers_no_primary)
  next
    case r: (Inr w)
    from x show ?thesis
      by (cases "total_bounds w")
         (auto simp: load_layers_primary [OF l r] overlay_warning_def viewport_out_def
            split: sum.splits if_splits)
  qed
qed

lemma load_layers_primary_no_error:
  assumes "listlayers env p = Inr ls" and "read_file env p None = Inr w"
  shows "Err_load_failed e \<notin> set (snd (load_layers env p s))"
  by (cases "total_bounds w")
     (auto simp: load_layers_primary [OF assms] overlay_warning_def viewport_out_def
        split: sum.splits if_splits)





lemma run_delineator_cases:
  "(\<exists>r. run_delineator env wid area s = (r, s, []))
   \<or> (\<exists>la lo e. run_delineator env wid area s
          = (Some e, s, [Selected_point la lo, Delineate_call la lo wid area]))
   \<or> (\<exists>la lo p. run_delineator env wid area s
          = (None, s, [Selected_point la lo, Delineate_call la lo wid area,
                       Err_not_created p]))
   \<or> (\<exists>la lo p. path_exists env p
          \<and> run_delineator env wid area s
            = (None, fst (load_layers env p (s(''gpkg_path'' \<mapsto> Str p))),
               [Selected_point la lo, Delineate_call la lo wid area,
                Success_complete, Output_file p]
               @ snd (load_layers env p (s(''gpkg_path'' \<mapsto> Str p)))))"
  by (simp add: run_delineator_def Let_def case_prod_beta
        split: option.splits val.splits sum.splits)

lemma load_layers_cases:
  "(\<exists>e. load_layers env p s = (s, [Err_load_failed e]))
   \<or> (\<exists>ls e. load_layers env p s = (s, [Available_layers ls, Err_load_failed e]))
   \<or> (\<exists>ls w. load_layers env p s =
         (after_load env p w s,
          [Available_layers ls]
            @ overlay_warning env p ''streams'' Warn_streams
            @ overlay_warning env p ''snap_point'' Warn_snap_point
            @ overlay_warning env p ''pour_point'' Warn_requested_point
            @ viewport_out (total_bounds w)))"
proof (cases "listlayers env p")
  case (Inl e)
  then show ?thesis by (simp add: load_layers_no_listing)
next
  case l: (Inr ls)
  show ?thesis
  proof (cases "read_file env p None")
    case (Inl e)
    with l show ?thesis by (simp add: load_layers_no_primary)
  next
    case r: (Inr w)
    show ?thesis using load_layers_primary [OF l r] by blast
  qed
qed

lemma script_cases:
  assumes "\<not> reset_button env"
    and "run_delineator env (text_input ''custom'' (wid_field env))
           (number_input None (area_field env)) (init_last_click s) = (r, s2, o2)"
  shows "(sess_of (script env s) = s2 \<and> out_of (script env s) = o2)
       \<or> (sess_of (script env s) = click_capture env s2
          \<and> out_of (script env s) =
             o2 @ map_display env s2
              @ snd (downloads env (text_input ''custom'' (wid_field env))
                      (click_capture env s2)))"
proof (cases r)
  case (Some e)
  with assms show ?thesis by (simp add: script_def Let_def sess_of_def out_of_def)
next
  case None
  with assms show ?thesis using script_after_run [of env s s2 o2] by simp
qed






lemma downloads_completed:
  assumes "downloads env wid s = (None, o4)"
  shows "((\<exists>b p. Download_gpkg b p \<in> set o4) \<longleftrightarrow> s ''gpkg_path'' \<noteq> None)
       \<and> ((\<exists>d n. Download_geojson d n \<in> set o4) \<longleftrightarrow> s ''geojson'' \<noteq> None)"
  using assms
  by (auto simp: downloads_def download_gpkg_def download_geojson_def
        split: option.splits val.splits sum.splits)

lemma load_layers_gpkg_path:
  "fst (load_layers env p s) ''gpkg_path'' = s ''gpkg_path''"
  using load_layers_cases [of env p s] by (auto simp: after_load_def)

lemma load_layers_geojson:
  "(fst (load_layers env p s) ''geojson'' = s ''geojson''
      \<and> (\<exists>e. Err_load_failed e \<in> set (snd (load_layers env p s))))
   \<or> (fst (load_layers env p s) ''geojson'' \<noteq> None
      \<and> (\<forall>e. Err_load_failed e \<notin> set (snd (load_layers env p s))))"
proof (cases "listlayers env p")
  case (Inl e)
  then show ?thesis by (simp add: load_layers_no_listing)
next
  case l: (Inr ls)
  show ?thesis
  proof (cases "read_file env p None")
    case (Inl e)
    with l show ?thesis by (simp add: load_layers_no_primary)
  next
    case r: (Inr w)
    have "fst (load_layers env p s) ''geojson'' \<noteq> None"
      by (simp add: load_layers_primary [OF l r] after_load_def)
    then show ?thesis using load_layers_primary_no_error [OF l r] by blast
  qed
qed

lemma run_delineator_exports:
  assumes "run_delineator env wid area s = (r, s2, o2)"
  shows "(s2 ''gpkg_path'' \<noteq> None \<longleftrightarrow> s ''gpkg_path'' \<noteq> None \<or> Success_complete \<in> set o2)
       \<and> (s2 ''geojson'' \<noteq> None \<longleftrightarrow>
            s ''geojson'' \<noteq> None
            \<or> (Success_complete \<in> set o2 \<and> (\<forall>e. Err_load_failed e \<notin> set o2)))
       \<and> (\<forall>x \<in> set o2. (\<forall>m. x \<noteq> Map_shown m) \<and> (\<forall>b p. x \<noteq> Download_gpkg b p)
              \<and> (\<forall>d n. x \<noteq> Download_geojson d n) \<and> (\<forall>e. x \<noteq> Warn_fit_bounds e))"
proof -
  from run_delineator_cases [of env wid area s] assms
  consider (same) "s2 = s" "Success_complete \<notin> set o2"
      "\<forall>x \<in> set o2. (\<forall>m. x \<noteq> Map_shown m) \<and> (\<forall>b p. x \<noteq> Download_gpkg b p)
              \<and> (\<forall>d n. x \<noteq> Download_geojson d n) \<and> (\<forall>e. x \<noteq> Warn_fit_bounds e)"
    | (found) la lo p where "s2 = fst (load_layers env p (s(''gpkg_path'' \<mapsto> Str p)))"
      "o2 = [Selected_point la lo, Delineate_call la lo wid area, Success_complete, Output_file p]
            @ snd (load_layers env p (s(''gpkg_path'' \<mapsto> Str p)))"
    by fastforce
  then show ?thesis
  proof cases
    case same
    then show ?thesis by simp
  next
    case found
    let ?s1 = "s(''gpkg_path'' \<mapsto> Str p)"
    have gp: "s2 ''gpkg_path'' \<noteq> None"
      by (simp add: found(1) load_layers_gpkg_path)
    have items: "\<forall>x \<in> set o2. (\<forall>m. x \<noteq> Map_shown m) \<and> (\<forall>b p. x \<noteq> Download_gpkg b p)
              \<and> (\<forall>d n. x \<noteq> Download_geojson d n) \<and> (\<forall>e. x \<noteq> Warn_fit_bounds e)"
      using load_layers_items [of _ env p ?s1] by (auto simp: found(2))
    have err: "(\<exists>e. Err_load_failed e \<in> set o2)
        \<longleftrightarrow> (\<exists>e. Err_load_failed e \<in> set (snd (load_layers env p ?s1)))"
      by (simp add: found(2))
    have gj: "s2 ''geojson'' \<noteq> None \<longleftrightarrow>
            s ''geojson'' \<noteq> None \<or> (\<forall>e. Err_load_failed e \<notin> set o2)"
      using load_layers_geojson [of env p ?s1] err by (auto simp: found(1))
    have "Success_complete \<in> set o2" by (simp add: found(2))
    with gp gj items show ?thesis by blast
  qed
qed

text \<open>The definitions that evaluating one execution on a concrete interaction unfolds.\<close>

lemmas eval_script =
  script_def init_last_click_def run_delineator_def load_layers_def load_streams_def
  load_snap_point_def load_requested_point_def bounding_box_def nan_check_iff
  click_capture_def downloads_def download_gpkg_def download_geojson_def map_display_def
  fit_map_def map_setup_def add_layer_def text_input_def number_input_def sess_of_def
  out_of_def status_of_def Let_def

subsection \<open>A missing artifact\<close>

text \<open>
  C4. When the delineation routine returns a path \<open>p\<close> at which no file exists, the run
  ends with the error that names \<open>p\<close> (line 39) and without the success message; the
  run block hands the dictionary on exactly as it received it, and at the end of the
  execution every key other than the stored click, in particular every key of a run,
  holds what it held before.
\<close>

theorem missing_artifact_fatal:
  assumes "\<not> reset_button env"
    and "s ''last_click'' = Some (Click c)"
    and "delineate_button env"
    and "delineate_point env (lat c) (lng c) (text_input ''custom'' (wid_field env))
           (number_input None (area_field env)) = Inr p"
    and "\<not> path_exists env p"
  shows "run_delineator env (text_input ''custom'' (wid_field env))
           (number_input None (area_field env)) (init_last_click s)
         = (None, s, [Selected_point (lat c) (lng c),
                      Delineate_call (lat c) (lng c) (text_input ''custom'' (wid_field env))
                        (number_input None (area_field env)),
                      Err_not_created p])
       \<and> Err_not_created p \<in> set (out_of (script env s))
       \<and> Success_complete \<notin> set (out_of (script env s))
       \<and> (\<forall>k. k \<noteq> ''last_click'' \<longrightarrow> sess_of (script env s) k = s k)
       \<and> map (sess_of (script env s)) run_keys = map s run_keys"
proof -
  let ?wid = "text_input ''custom'' (wid_field env)"
  let ?area = "number_input None (area_field env)"
  let ?o2 = "[Selected_point (lat c) (lng c), Delineate_call (lat c) (lng c) ?wid ?area,
              Err_not_created p]"
  have init: "init_last_click s = s"
    using assms(2) by (rule init_last_click_present)
  have run: "run_delineator env ?wid ?area (init_last_click s) = (None, s, ?o2)"
    unfolding init using assms(2,3,4,5) by (rule run_delineator_missing)
  have sess: "sess_of (script env s) = click_capture env s"
    using assms(1) run by (rule script_after_run(1))
  have out: "out_of (script env s) =
               ?o2 @ map_display env s @ snd (downloads env ?wid (click_capture env s))"
    using assms(1) run by (rule script_after_run(2))
  have "Err_not_created p \<in> set (out_of (script env s))"
    by (simp add: out)
  moreover have "Success_complete \<notin> set (out_of (script env s))"
    using map_display_items [of Success_complete env s]
      downloads_items [of Success_complete env ?wid "click_capture env s"]
    by (auto simp: out)
  moreover have keep: "\<forall>k. k \<noteq> ''last_click'' \<longrightarrow> sess_of (script env s) k = s k"
    by (simp add: sess click_capture_other)
  moreover have "map (sess_of (script env s)) run_keys = map s run_keys"
    using keep by (simp add: run_keys_def)
  ultimately show ?thesis using run by blast
qed

theorem missing_artifact_fatal_witness:
  "\<not> reset_button env_missing
   \<and> session_prev ''last_click'' = Some (Click click_A)
   \<and> delineate_button env_missing
   \<and> delineate_point env_missing (lat click_A) (lng click_A)
         (text_input ''custom'' (wid_field env_missing))
         (number_input None (area_field env_missing)) = Inr ''/tmp/out.gpkg''
   \<and> \<not> path_exists env_missing ''/tmp/out.gpkg''
   \<and> Err_not_created ''/tmp/out.gpkg'' \<in> set (out_of (script env_missing session_prev))
   \<and> Success_complete \<notin> set (out_of (script env_missing session_prev))
   \<and> map (sess_of (script env_missing session_prev)) run_keys = map session_prev run_keys"
  using missing_artifact_fatal [of env_missing session_prev click_A "''/tmp/out.gpkg''"]
  by (simp add: env_missing_def env_A_def session_prev_def)

subsection \<open>The viewport\<close>




subsection \<open>Optional layers\<close>

text \<open>
  C3, as the script has it. Loading succeeds (line 83 is not reached) exactly when the
  layer listing and the primary layer can be read. Then each of the three optional layers
  is read on its own: a layer that can be read is stored under its key, a layer that
  cannot be read leaves its key as it was (absent in a session that held none) and puts
  exactly one warning on the page, the warnings coming in the order streams, snap point,
  requested point.
\<close>

theorem overlay_independence:
  "((\<forall>e. Err_load_failed e \<notin> set (snd (load_layers env p s)))
      \<longleftrightarrow> (\<exists>ls. listlayers env p = Inr ls) \<and> (\<exists>w. read_file env p None = Inr w))
   \<and> (listlayers env p = Inr ls \<and> read_file env p None = Inr w \<longrightarrow>
        layer_warnings (snd (load_layers env p s))
          = overlay_warning env p ''streams'' Warn_streams
            @ overlay_warning env p ''snap_point'' Warn_snap_point
            @ overlay_warning env p ''pour_point'' Warn_requested_point
      \<and> fst (load_layers env p s) ''geojson'' = Some (Str (to_json w))
      \<and> fst (load_layers env p s) ''streams'' = overlay_after env p ''streams'' (s ''streams'')
      \<and> fst (load_layers env p s) ''snap_point''
          = overlay_after env p ''snap_point'' (s ''snap_point'')
      \<and> fst (load_layers env p s) ''requested_point''
          = overlay_after env p ''pour_point'' (s ''requested_point''))"
proof -
  have iff: "(\<forall>e. Err_load_failed e \<notin> set (snd (load_layers env p s)))
      \<longleftrightarrow> (\<exists>ls. listlayers env p = Inr ls) \<and> (\<exists>w. read_file env p None = Inr w)"
  proof (cases "listlayers env p")
    case (Inl e)
    then show ?thesis by (auto simp: load_layers_no_listing)
  next
    case (Inr ls)
    show ?thesis
    proof (cases "read_file env p None")
      case (Inl e)
      with Inr show ?thesis by (auto simp: load_layers_no_primary)
    next
      case r: (Inr w)
      have "\<forall>e. Err_load_failed e \<notin> set (snd (load_layers env p s))"
        by (auto simp: load_layers_primary [OF Inr r] overlay_warning_def viewport_out_def
            split: sum.splits prod.splits if_splits)
      with Inr r show ?thesis by simp
    qed
  qed
  have ok: "layer_warnings (snd (load_layers env p s))
          = overlay_warning env p ''streams'' Warn_streams
            @ overlay_warning env p ''snap_point'' Warn_snap_point
            @ overlay_warning env p ''pour_point'' Warn_requested_point
      \<and> fst (load_layers env p s) ''geojson'' = Some (Str (to_json w))
      \<and> fst (load_layers env p s) ''streams'' = overlay_after env p ''streams'' (s ''streams'')
      \<and> fst (load_layers env p s) ''snap_point''
          = overlay_after env p ''snap_point'' (s ''snap_point'')
      \<and> fst (load_layers env p s) ''requested_point''
          = overlay_after env p ''pour_point'' (s ''requested_point'')"
    if l: "listlayers env p = Inr ls" and r: "read_file env p None = Inr w"
  proof -
    have "layer_warnings (viewport_out (total_bounds w)) = []"
      by (cases "total_bounds w") (simp add: layer_warnings_def viewport_out_def)
    then have "layer_warnings (snd (load_layers env p s))
          = overlay_warning env p ''streams'' Warn_streams
            @ overlay_warning env p ''snap_point'' Warn_snap_point
            @ overlay_warning env p ''pour_point'' Warn_requested_point"
      by (simp add: load_layers_primary [OF l r] layer_warnings_def overlay_warning_def
            split: sum.splits)
    then show ?thesis
      by (simp add: load_layers_primary [OF l r] after_load_def)
  qed
  from iff ok show ?thesis by blast
qed

theorem overlay_independence_witness:
  "listlayers env_no_points ''/tmp/out.gpkg''
     = Inr [''watershed'', ''streams'', ''snap_point'', ''pour_point'']
   \<and> read_file env_no_points ''/tmp/out.gpkg'' None
     = Inr \<lparr> to_json = ''watershed'', total_bounds = (Fin 0, Fin 1, Fin 2, Fin 3) \<rparr>
   \<and> layer_warnings (snd (load_layers env_no_points ''/tmp/out.gpkg'' session_fresh))
     = [Warn_snap_point, Warn_requested_point]
   \<and> fst (load_layers env_no_points ''/tmp/out.gpkg'' session_fresh) ''geojson''
     = Some (Str ''watershed'')
   \<and> fst (load_layers env_no_points ''/tmp/out.gpkg'' session_fresh) ''streams''
     = Some (Str ''streams'')
   \<and> fst (load_layers env_no_points ''/tmp/out.gpkg'' session_fresh) ''snap_point'' = None
   \<and> fst (load_layers env_no_points ''/tmp/out.gpkg'' session_fresh) ''requested_point'' = None"
  using overlay_independence [of env_no_points "''/tmp/out.gpkg''" session_fresh
      "[''watershed'', ''streams'', ''snap_point'', ''pour_point'']"
      "\<lparr> to_json = ''watershed'', total_bounds = (Fin 0, Fin 1, Fin 2, Fin 3) \<rparr>"]
  by (simp add: env_no_points_def env_A_def session_fresh_def overlay_warning_def
        overlay_after_def)

text \<open>
  The snap point layer cannot be read, the load succeeds, and the key \<^verbatim>\<open>snap_point\<close>
  still holds the layer of the earlier run: it is not recorded as absent.
\<close>

theorem stale_overlay_counterexample:
  "read_file env_no_points ''/tmp/out.gpkg'' (Some ''snap_point'') = Inl (Exn ''layer not found'')
   \<and> fst (load_layers env_no_points ''/tmp/out.gpkg'' session_prev) ''geojson''
       = Some (Str ''watershed'')
   \<and> fst (load_layers env_no_points ''/tmp/out.gpkg'' session_prev) ''snap_point''
       = Some (Str ''old snap_point'')"
  by (simp add: env_no_points_def env_A_def session_prev_def load_layers_def load_streams_def
        load_snap_point_def load_requested_point_def bounding_box_def nan_check_iff Let_def)

subsection \<open>How a run installs its results\<close>

text \<open>
  C1, as the script has it. A run writes its results to the dictionary key by key, in
  the order of the script. When the artifact is missing, every key of a run keeps its
  value. When the artifact exists, \<^verbatim>\<open>gpkg_path\<close> is overwritten first (line 43); if
  the layer listing or the primary layer then cannot be read, the other keys of a run keep
  their values. Otherwise \<^verbatim>\<open>geojson\<close> is overwritten, each optional layer is
  overwritten if it can be read and keeps its value if not, and \<^verbatim>\<open>map_center\<close> and
  \<^verbatim>\<open>map_bounds\<close> are overwritten together if no bound is not-a-number and keep their
  values otherwise. A run whose layers can all be read and whose extent has no
  not-a-number installs all seven keys from the new artifact.
\<close>

theorem run_installs_key_by_key:
  assumes "\<not> reset_button env"
    and "s ''last_click'' = Some (Click c)"
    and "delineate_button env"
    and "delineate_point env (lat c) (lng c) (text_input ''custom'' (wid_field env))
           (number_input None (area_field env)) = Inr p"
  shows "(\<not> path_exists env p \<longrightarrow> map (sess_of (script env s)) run_keys = map s run_keys)
    \<and> (path_exists env p \<and> listlayers env p = Inl e \<longrightarrow>
         map (sess_of (script env s)) run_keys = map (s(''gpkg_path'' \<mapsto> Str p)) run_keys)
    \<and> (path_exists env p \<and> listlayers env p = Inr ls \<and> read_file env p None = Inl e \<longrightarrow>
         map (sess_of (script env s)) run_keys = map (s(''gpkg_path'' \<mapsto> Str p)) run_keys)
    \<and> (path_exists env p \<and> listlayers env p = Inr ls \<and> read_file env p None = Inr w \<longrightarrow>
         map (sess_of (script env s)) run_keys
           = [Some (Str p), Some (Str (to_json w)),
              overlay_after env p ''streams'' (s ''streams''),
              overlay_after env p ''snap_point'' (s ''snap_point''),
              overlay_after env p ''pour_point'' (s ''requested_point''),
              center_after (total_bounds w) (s ''map_center''),
              bounds_after (total_bounds w) (s ''map_bounds'')])
    \<and> (path_exists env p \<and> listlayers env p = Inr ls \<and> read_file env p None = Inr w
         \<and> read_file env p (Some ''streams'') = Inr g1
         \<and> read_file env p (Some ''snap_point'') = Inr g2
         \<and> read_file env p (Some ''pour_point'') = Inr g3
         \<and> total_bounds w = (b0, b1, b2, b3)
         \<and> b0 \<noteq> NaN \<and> b1 \<noteq> NaN \<and> b2 \<noteq> NaN \<and> b3 \<noteq> NaN \<longrightarrow>
         map (sess_of (script env s)) run_keys
           = [Some (Str p), Some (Str (to_json w)), Some (Str (to_json g1)),
              Some (Str (to_json g2)), Some (Str (to_json g3)),
              Some (FList [fl_div_2 (fl_add b1 b3), fl_div_2 (fl_add b0 b2)]),
              Some (FLists [[b1, b0], [b3, b2]])])"
proof -
  have missing: "map (sess_of (script env s)) run_keys = map s run_keys"
    if "\<not> path_exists env p"
  proof -
    have "run_delineator env (text_input ''custom'' (wid_field env))
           (number_input None (area_field env)) (init_last_click s)
          = (None, s, [Selected_point (lat c) (lng c),
                Delineate_call (lat c) (lng c) (text_input ''custom'' (wid_field env))
                  (number_input None (area_field env)),
                Err_not_created p])"
      using assms that
      by (simp add: init_last_click_present run_delineator_missing)
    then have "sess_of (script env s) = click_capture env s"
      using assms(1) by (rule script_after_run(1) [rotated])
    then show ?thesis by (simp add: run_keys_click_capture)
  qed
  have found: "map (sess_of (script env s)) run_keys
      = map (fst (load_layers env p (s(''gpkg_path'' \<mapsto> Str p)))) run_keys"
    if "path_exists env p"
    using script_run_found(1) [of env s c p] assms that by (simp add: run_keys_click_capture)
  have no_listing: "map (sess_of (script env s)) run_keys
      = map (s(''gpkg_path'' \<mapsto> Str p)) run_keys"
    if "path_exists env p" and "listlayers env p = Inl e"
    using found [OF that(1)] that(2) by (simp add: load_layers_no_listing)
  have no_primary: "map (sess_of (script env s)) run_keys
      = map (s(''gpkg_path'' \<mapsto> Str p)) run_keys"
    if "path_exists env p" and "listlayers env p = Inr ls" and "read_file env p None = Inl e"
    using found [OF that(1)] that(2,3) by (simp add: load_layers_no_primary)
  have primary: "map (sess_of (script env s)) run_keys
           = [Some (Str p), Some (Str (to_json w)),
              overlay_after env p ''streams'' (s ''streams''),
              overlay_after env p ''snap_point'' (s ''snap_point''),
              overlay_after env p ''pour_point'' (s ''requested_point''),
              center_after (total_bounds w) (s ''map_center''),
              bounds_after (total_bounds w) (s ''map_bounds'')]"
    if "path_exists env p" and "listlayers env p = Inr ls" and "read_file env p None = Inr w"
    using found [OF that(1)]
    by (simp add: load_layers_primary [OF that(2,3)] after_load_def run_keys_def)
  have full: "map (sess_of (script env s)) run_keys
           = [Some (Str p), Some (Str (to_json w)), Some (Str (to_json g1)),
              Some (Str (to_json g2)), Some (Str (to_json g3)),
              Some (FList [fl_div_2 (fl_add b1 b3), fl_div_2 (fl_add b0 b2)]),
              Some (FLists [[b1, b0], [b3, b2]])]"
    if "path_exists env p" and "listlayers env p = Inr ls" and "read_file env p None = Inr w"
      and "read_file env p (Some ''streams'') = Inr g1"
      and "read_file env p (Some ''snap_point'') = Inr g2"
      and "read_file env p (Some ''pour_point'') = Inr g3"
      and "total_bounds w = (b0, b1, b2, b3)"
      and "b0 \<noteq> NaN \<and> b1 \<noteq> NaN \<and> b2 \<noteq> NaN \<and> b3 \<noteq> NaN"
    using primary [OF that(1,2,3)] that(4-)
    by (simp add: overlay_after_def center_after_def bounds_after_def has_nan_def)
  from missing no_listing no_primary primary full show ?thesis by blast
qed

theorem run_installs_key_by_key_witness:
  "\<not> reset_button env_A
   \<and> session_prev ''last_click'' = Some (Click click_A)
   \<and> delineate_button env_A
   \<and> delineate_point env_A (lat click_A) (lng click_A)
         (text_input ''custom'' (wid_field env_A))
         (number_input None (area_field env_A)) = Inr ''/tmp/out.gpkg''
   \<and> path_exists env_A ''/tmp/out.gpkg''
   \<and> map (sess_of (script env_A session_prev)) run_keys
       = [Some (Str ''/tmp/out.gpkg''), Some (Str ''watershed''), Some (Str ''streams''),
          Some (Str ''snap_point''), Some (Str ''pour_point''),
          Some (FList [Fin 2, Fin 1]), Some (FLists [[Fin 1, Fin 0], [Fin 3, Fin 2]])]
   \<and> \<not> path_exists env_missing ''/tmp/out.gpkg''
   \<and> map (sess_of (script env_missing session_prev)) run_keys = map session_prev run_keys
   \<and> listlayers env_no_listing ''/tmp/out.gpkg'' = Inl (Exn ''not a GeoPackage'')
   \<and> map (sess_of (script env_no_listing session_prev)) run_keys
       = map (session_prev(''gpkg_path'' \<mapsto> Str ''/tmp/out.gpkg'')) run_keys
   \<and> read_file env_primary_unreadable ''/tmp/out.gpkg'' None = Inl (Exn ''unreadable'')
   \<and> map (sess_of (script env_primary_unreadable session_prev)) run_keys
       = map (session_prev(''gpkg_path'' \<mapsto> Str ''/tmp/out.gpkg'')) run_keys
   \<and> map (sess_of (script env_no_overlays session_prev)) run_keys
       = [Some (Str ''/tmp/out.gpkg''), Some (Str ''watershed''), Some (Str ''old streams''),
          Some (Str ''old snap_point''), Some (Str ''old pour_point''),
          Some (FList [Fin 2, Fin 1]), Some (FLists [[Fin 1, Fin 0], [Fin 3, Fin 2]])]"
  using run_installs_key_by_key [of env_A session_prev click_A "''/tmp/out.gpkg''"
      "Exn ''none''" "[''watershed'', ''streams'', ''snap_point'', ''pour_point'']"
      "\<lparr> to_json = ''watershed'', total_bounds = (Fin 0, Fin 1, Fin 2, Fin 3) \<rparr>"
      "\<lparr> to_json = ''streams'', total_bounds = (Fin 0, Fin 1, Fin 2, Fin 3) \<rparr>"
      "\<lparr> to_json = ''snap_point'', total_bounds = (Fin 0, Fin 1, Fin 2, Fin 3) \<rparr>"
      "\<lparr> to_json = ''pour_point'', total_bounds = (Fin 0, Fin 1, Fin 2, Fin 3) \<rparr>"
      "Fin 0" "Fin 1" "Fin 2" "Fin 3"]
    run_installs_key_by_key [of env_missing session_prev click_A "''/tmp/out.gpkg''"]
    run_installs_key_by_key [of env_no_listing session_prev click_A "''/tmp/out.gpkg''"
      "Exn ''not a GeoPackage''"]
    run_installs_key_by_key [of env_primary_unreadable session_prev click_A "''/tmp/out.gpkg''"
      "Exn ''unreadable''" "[''watershed'', ''streams'', ''snap_point'', ''pour_point'']"]
    run_installs_key_by_key [of env_no_overlays session_prev click_A "''/tmp/out.gpkg''"
      "Exn ''none''" "[''watershed'', ''streams'', ''snap_point'', ''pour_point'']"
      "\<lparr> to_json = ''watershed'', total_bounds = (Fin 0, Fin 1, Fin 2, Fin 3) \<rparr>"]
  by (simp add: env_A_def env_missing_def env_no_listing_def env_primary_unreadable_def
        env_no_overlays_def session_prev_def overlay_after_def center_after_def
        bounds_after_def has_nan_def run_keys_def)

text \<open>
  The primary layer of the new artifact cannot be read: the load fails (line 83), and the
  dictionary holds the path of the new artifact beside the watershed of the earlier run.
\<close>

theorem partial_install_counterexample:
  "Err_load_failed (Exn ''unreadable'') \<in> set (out_of (script env_primary_unreadable session_prev))
   \<and> session_prev ''gpkg_path'' = Some (Str ''/tmp/old.gpkg'')
   \<and> session_prev ''geojson'' = Some (Str ''old watershed'')
   \<and> sess_of (script env_primary_unreadable session_prev) ''gpkg_path''
       = Some (Str ''/tmp/out.gpkg'')
   \<and> sess_of (script env_primary_unreadable session_prev) ''geojson''
       = Some (Str ''old watershed'')
   \<and> map (sess_of (script env_primary_unreadable session_prev)) run_keys
       \<noteq> map session_prev run_keys"
  by (simp add: env_primary_unreadable_def env_A_def session_prev_def click_A_def run_keys_def
        eval_script)

subsection \<open>A new run over an earlier one\<close>

text \<open>
  C2, as the script has it. A run that found its artifact and read the primary layer
  succeeds and overwrites \<^verbatim>\<open>geojson\<close>. For each optional layer that the new artifact
  lacks, the run shows the warning and leaves the layer's key as it was before the run:
  the key is absent afterwards only if it was absent before; a layer loaded by an earlier
  run stays in the dictionary (and on the map).
\<close>

theorem missing_overlay_keeps_previous:
  assumes "\<not> reset_button env"
    and "s ''last_click'' = Some (Click c)"
    and "delineate_button env"
    and "delineate_point env (lat c) (lng c) (text_input ''custom'' (wid_field env))
           (number_input None (area_field env)) = Inr p"
    and "path_exists env p"
    and "listlayers env p = Inr ls"
    and "read_file env p None = Inr w"
  shows "Success_complete \<in> set (out_of (script env s))
    \<and> (\<forall>e. Err_load_failed e \<notin> set (out_of (script env s)))
    \<and> sess_of (script env s) ''geojson'' = Some (Str (to_json w))
    \<and> (read_file env p (Some ''streams'') = Inl e1 \<longrightarrow>
         sess_of (script env s) ''streams'' = s ''streams''
         \<and> Warn_streams \<in> set (out_of (script env s)))
    \<and> (read_file env p (Some ''snap_point'') = Inl e2 \<longrightarrow>
         sess_of (script env s) ''snap_point'' = s ''snap_point''
         \<and> Warn_snap_point \<in> set (out_of (script env s)))
    \<and> (read_file env p (Some ''pour_point'') = Inl e3 \<longrightarrow>
         sess_of (script env s) ''requested_point'' = s ''requested_point''
         \<and> Warn_requested_point \<in> set (out_of (script env s)))"
proof -
  let ?s1 = "s(''gpkg_path'' \<mapsto> Str p)"
  let ?wid = "text_input ''custom'' (wid_field env)"
  let ?area = "number_input None (area_field env)"
  have load: "load_layers env p ?s1 =
     (after_load env p w ?s1,
      [Available_layers ls]
        @ overlay_warning env p ''streams'' Warn_streams
        @ overlay_warning env p ''snap_point'' Warn_snap_point
        @ overlay_warning env p ''pour_point'' Warn_requested_point
        @ viewport_out (total_bounds w))"
    using assms(6,7) by (rule load_layers_primary)
  have sess: "sess_of (script env s) = click_capture env (after_load env p w ?s1)"
    using script_run_found(1) [of env s c p] assms(1-5) by (simp add: load)
  have out: "out_of (script env s)
           = [Selected_point (lat c) (lng c), Delineate_call (lat c) (lng c) ?wid ?area,
              Success_complete, Output_file p]
             @ snd (load_layers env p ?s1)
             @ map_display env (fst (load_layers env p ?s1))
             @ snd (downloads env ?wid (click_capture env (fst (load_layers env p ?s1))))"
    using script_run_found(2) [of env s c p] assms(1-5) by simp
  have success: "Success_complete \<in> set (out_of (script env s))"
    by (simp add: out)
  have no_error: "\<forall>e. Err_load_failed e \<notin> set (out_of (script env s))"
  proof
    fix e
    have "Err_load_failed e \<notin> set (snd (load_layers env p ?s1))"
      using assms(6,7) by (rule load_layers_primary_no_error)
    moreover have "Err_load_failed e \<notin> set (map_display env (fst (load_layers env p ?s1)))"
      using map_display_items by blast
    moreover have "Err_load_failed e \<notin> set (snd (downloads env ?wid
        (click_capture env (fst (load_layers env p ?s1)))))"
      using downloads_items by blast
    ultimately show "Err_load_failed e \<notin> set (out_of (script env s))"
      by (simp add: out)
  qed
  have geojson: "sess_of (script env s) ''geojson'' = Some (Str (to_json w))"
    by (simp add: sess click_capture_other after_load_def)
  have streams: "sess_of (script env s) ''streams'' = s ''streams''
         \<and> Warn_streams \<in> set (out_of (script env s))"
    if "read_file env p (Some ''streams'') = Inl e1"
    using that
    by (simp add: sess out load click_capture_other after_load_def overlay_after_def
          overlay_warning_def)
  have snap: "sess_of (script env s) ''snap_point'' = s ''snap_point''
         \<and> Warn_snap_point \<in> set (out_of (script env s))"
    if "read_file env p (Some ''snap_point'') = Inl e2"
    using that
    by (simp add: sess out load click_capture_other after_load_def overlay_after_def
          overlay_warning_def)
  have pour: "sess_of (script env s) ''requested_point'' = s ''requested_point''
         \<and> Warn_requested_point \<in> set (out_of (script env s))"
    if "read_file env p (Some ''pour_point'') = Inl e3"
    using that
    by (simp add: sess out load click_capture_other after_load_def overlay_after_def
          overlay_warning_def)
  from success no_error geojson streams snap pour show ?thesis by blast
qed

theorem missing_overlay_keeps_previous_witness:
  "\<not> reset_button env_no_overlays
   \<and> session_fresh ''last_click'' = Some (Click click_A)
   \<and> delineate_button env_no_overlays
   \<and> delineate_point env_no_overlays (lat click_A) (lng click_A)
         (text_input ''custom'' (wid_field env_no_overlays))
         (number_input None (area_field env_no_overlays)) = Inr ''/tmp/out.gpkg''
   \<and> path_exists env_no_overlays ''/tmp/out.gpkg''
   \<and> listlayers env_no_overlays ''/tmp/out.gpkg''
       = Inr [''watershed'', ''streams'', ''snap_point'', ''pour_point'']
   \<and> read_file env_no_overlays ''/tmp/out.gpkg'' None
       = Inr \<lparr> to_json = ''watershed'', total_bounds = (Fin 0, Fin 1, Fin 2, Fin 3) \<rparr>
   \<and> read_file env_no_overlays ''/tmp/out.gpkg'' (Some ''streams'')
       = Inl (Exn ''layer not found'')
   \<and> read_file env_no_overlays ''/tmp/out.gpkg'' (Some ''snap_point'')
       = Inl (Exn ''layer not found'')
   \<and> read_file env_no_overlays ''/tmp/out.gpkg'' (Some ''pour_point'')
       = Inl (Exn ''layer not found'')
   \<and> Success_complete \<in> set (out_of (script env_no_overlays session_fresh))
   \<and> Warn_streams \<in> set (out_of (script env_no_overlays session_fresh))
   \<and> Warn_snap_point \<in> set (out_of (script env_no_overlays session_fresh))
   \<and> Warn_requested_point \<in> set (out_of (script env_no_overlays session_fresh))
   \<and> sess_of (script env_no_overlays session_fresh) ''geojson'' = Some (Str ''watershed'')
   \<and> sess_of (script env_no_overlays session_fresh) ''streams'' = None
   \<and> sess_of (script env_no_overlays session_fresh) ''snap_point'' = None
   \<and> sess_of (script env_no_overlays session_fresh) ''requested_point'' = None"
  using missing_overlay_keeps_previous [of env_no_overlays session_fresh click_A
      "''/tmp/out.gpkg''" "[''watershed'', ''streams'', ''snap_point'', ''pour_point'']"
      "\<lparr> to_json = ''watershed'', total_bounds = (Fin 0, Fin 1, Fin 2, Fin 3) \<rparr>"
      "Exn ''layer not found''" "Exn ''layer not found''" "Exn ''layer not found''"]
  by (simp add: env_no_overlays_def env_A_def session_fresh_def)

text \<open>
  The new artifact has no streams layer. The run succeeds, the watershed is the new one,
  and the dictionary and the map still hold the streams of the earlier run.
\<close>

theorem stale_streams_counterexample:
  "read_file env_no_streams ''/tmp/out.gpkg'' (Some ''streams'') = Inl (Exn ''layer not found'')
   \<and> Success_complete \<in> set (out_of (script env_no_streams session_prev))
   \<and> Warn_streams \<in> set (out_of (script env_no_streams session_prev))
   \<and> sess_of (script env_no_streams session_prev) ''geojson'' = Some (Str ''watershed'')
   \<and> sess_of (script env_no_streams session_prev) ''streams'' = Some (Str ''old streams'')
   \<and> Map_shown \<lparr> location = FList [Fin 2, Fin 1], zoom_start = 9, tiles = ''OpenStreetMap'',
         overlays = [(''Watershed'', Str ''watershed''), (''Rivers'', Str ''old streams''),
                     (''Requested'', Str ''pour_point''),
                     (''Snapped to river centerline'', Str ''snap_point'')],
         fitted = Some (FLists [[Fin 1, Fin 0], [Fin 3, Fin 2]]) \<rparr>
       \<in> set (out_of (script env_no_streams session_prev))"
  by (simp add: env_no_streams_def env_A_def session_prev_def click_A_def eval_script)

subsection \<open>Storing a click\<close>




subsection \<open>The watershed identifier\<close>




subsection \<open>The default view\<close>




subsection \<open>Downloads\<close>

text \<open>
  C9, as the script has it. The two downloads only read the dictionary. The GeoPackage
  download is offered when \<^verbatim>\<open>gpkg_path\<close> is present (with the bytes of that file, if it
  can be opened) and not offered when it is absent; the GeoJSON download is offered
  exactly when \<^verbatim>\<open>geojson\<close> is present and cannot fail. After an execution,
  \<^verbatim>\<open>gpkg_path\<close> is present exactly if it was present before or a run of this execution
  found its artifact (whether or not the layers could then be loaded), and
  \<^verbatim>\<open>geojson\<close> is present exactly if it was present before or a run of this execution
  found its artifact and loaded it without the error of line 83. An execution that
  completes offers each download exactly when its key is present at the end.
\<close>

theorem export_availability:
  "download_gpkg env (s(''gpkg_path'' := None)) = (None, [])
   \<and> (s ''gpkg_path'' = Some (Str p) \<and> read_bytes env p = Inr b \<longrightarrow>
        download_gpkg env s = (None, [Download_gpkg b p]))
   \<and> download_geojson wid s
       = (case s ''geojson'' of None \<Rightarrow> [] | Some d \<Rightarrow> [Download_geojson d (wid @ ''.geojson'')])
   \<and> (\<not> reset_button env \<longrightarrow>
        (sess_of (script env s) ''gpkg_path'' \<noteq> None \<longleftrightarrow>
           s ''gpkg_path'' \<noteq> None \<or> Success_complete \<in> set (out_of (script env s)))
      \<and> (sess_of (script env s) ''geojson'' \<noteq> None \<longleftrightarrow>
           s ''geojson'' \<noteq> None
           \<or> (Success_complete \<in> set (out_of (script env s))
              \<and> (\<forall>e. Err_load_failed e \<notin> set (out_of (script env s))))))
   \<and> (status_of (script env s) = Completed \<longrightarrow>
        ((\<exists>b p. Download_gpkg b p \<in> set (out_of (script env s)))
           \<longleftrightarrow> sess_of (script env s) ''gpkg_path'' \<noteq> None)
      \<and> ((\<exists>d n. Download_geojson d n \<in> set (out_of (script env s)))
           \<longleftrightarrow> sess_of (script env s) ''geojson'' \<noteq> None))"
proof -
  let ?wid = "text_input ''custom'' (wid_field env)"
  let ?area = "number_input None (area_field env)"
  obtain r s2 o2 where run: "run_delineator env ?wid ?area (init_last_click s) = (r, s2, o2)"
    by (cases "run_delineator env ?wid ?area (init_last_click s)")
  note ex = run_delineator_exports [OF run]
  have init: "init_last_click s ''gpkg_path'' = s ''gpkg_path''"
    "init_last_click s ''geojson'' = s ''geojson''"
    by (simp_all add: init_last_click_other)
  have raw_none: "download_gpkg env (s(''gpkg_path'' := None)) = (None, [])"
    by (simp add: download_gpkg_def)
  have raw_some: "download_gpkg env s = (None, [Download_gpkg b p])"
    if "s ''gpkg_path'' = Some (Str p)" and "read_bytes env p = Inr b"
    using that by (simp add: download_gpkg_def)
  have gj: "download_geojson wid s
       = (case s ''geojson'' of None \<Rightarrow> [] | Some d \<Rightarrow> [Download_geojson d (wid @ ''.geojson'')])"
    by (simp add: download_geojson_def)
  have step: "(sess_of (script env s) ''gpkg_path'' \<noteq> None \<longleftrightarrow>
           s ''gpkg_path'' \<noteq> None \<or> Success_complete \<in> set (out_of (script env s)))
      \<and> (sess_of (script env s) ''geojson'' \<noteq> None \<longleftrightarrow>
           s ''geojson'' \<noteq> None
           \<or> (Success_complete \<in> set (out_of (script env s))
              \<and> (\<forall>e. Err_load_failed e \<notin> set (out_of (script env s)))))"
    if nr: "\<not> reset_button env"
  proof -
    let ?o3 = "map_display env s2 @ snd (downloads env ?wid (click_capture env s2))"
    have o3: "Success_complete \<notin> set ?o3" "\<forall>e. Err_load_failed e \<notin> set ?o3"
      using map_display_items [of _ env s2]
        downloads_items [of _ env ?wid "click_capture env s2"]
      by auto
    from script_cases [OF nr run] show ?thesis
    proof
      assume "sess_of (script env s) = s2 \<and> out_of (script env s) = o2"
      with ex init show ?thesis by simp
    next
      assume a: "sess_of (script env s) = click_capture env s2
          \<and> out_of (script env s) = o2 @ ?o3"
      then have "sess_of (script env s) ''gpkg_path'' = s2 ''gpkg_path''"
        "sess_of (script env s) ''geojson'' = s2 ''geojson''"
        by (simp_all add: click_capture_other)
      moreover have "Success_complete \<in> set (out_of (script env s))
          \<longleftrightarrow> Success_complete \<in> set o2"
        using a o3(1) by auto
      moreover have "(\<forall>e. Err_load_failed e \<notin> set (out_of (script env s)))
          \<longleftrightarrow> (\<forall>e. Err_load_failed e \<notin> set o2)"
        using a o3(2) by auto
      ultimately show ?thesis using ex init by simp
    qed
  qed
  have offered: "((\<exists>b p. Download_gpkg b p \<in> set (out_of (script env s)))
           \<longleftrightarrow> sess_of (script env s) ''gpkg_path'' \<noteq> None)
      \<and> ((\<exists>d n. Download_geojson d n \<in> set (out_of (script env s)))
           \<longleftrightarrow> sess_of (script env s) ''geojson'' \<noteq> None)"
    if c: "status_of (script env s) = Completed"
  proof -
    from c have nr: "\<not> reset_button env"
      by (auto simp: script_def status_of_def)
    obtain r4 o4 where dl: "downloads env ?wid (click_capture env s2) = (r4, o4)"
      by (cases "downloads env ?wid (click_capture env s2)")
    from c nr run dl have r: "r = None" "r4 = None"
      by (auto simp: script_def status_of_def Let_def split: option.splits)
    have sess: "sess_of (script env s) = click_capture env s2"
      and out: "out_of (script env s) = o2 @ map_display env s2 @ o4"
      using script_after_run [of env s s2 o2] nr run r(1) dl by simp_all
    have md: "\<forall>x \<in> set (map_display env s2). (\<forall>b p. x \<noteq> Download_gpkg b p)
              \<and> (\<forall>d n. x \<noteq> Download_geojson d n)"
      using map_display_items [of _ env s2] by auto
    have "(\<exists>b p. Download_gpkg b p \<in> set (out_of (script env s)))
        \<longleftrightarrow> (\<exists>b p. Download_gpkg b p \<in> set o4)"
      using ex md by (auto simp: out)
    moreover have "(\<exists>d n. Download_geojson d n \<in> set (out_of (script env s)))
        \<longleftrightarrow> (\<exists>d n. Download_geojson d n \<in> set o4)"
      using ex md by (auto simp: out)
    ultimately show ?thesis
      using downloads_completed [of env ?wid "click_capture env s2" o4] dl r(2)
      by (simp add: sess)
  qed
  from raw_none raw_some gj step offered show ?thesis by blast
qed

theorem export_availability_witness:
  "session_prev ''gpkg_path'' = Some (Str ''/tmp/old.gpkg'')
   \<and> read_bytes env_A ''/tmp/old.gpkg'' = Inr ''bytes of /tmp/old.gpkg''
   \<and> download_gpkg env_A session_prev
       = (None, [Download_gpkg ''bytes of /tmp/old.gpkg'' ''/tmp/old.gpkg''])
   \<and> download_gpkg env_A session_fresh = (None, [])
   \<and> download_geojson ''river1'' session_fresh = []
   \<and> \<not> reset_button env_A
   \<and> status_of (script env_A session_fresh) = Completed
   \<and> Success_complete \<in> set (out_of (script env_A session_fresh))
   \<and> sess_of (script env_A session_fresh) ''gpkg_path'' = Some (Str ''/tmp/out.gpkg'')
   \<and> sess_of (script env_A session_fresh) ''geojson'' = Some (Str ''watershed'')
   \<and> Download_gpkg ''bytes of /tmp/out.gpkg'' ''/tmp/out.gpkg''
       \<in> set (out_of (script env_A session_fresh))
   \<and> Download_geojson (Str ''watershed'') ''river1.geojson''
       \<in> set (out_of (script env_A session_fresh))
   \<and> \<not> reset_button env_far_click
   \<and> status_of (script env_far_click session_fresh) = Completed
   \<and> out_of (script env_far_click session_fresh)
       = [Map_shown \<lparr> location = FList [Fin 4.6, Fin (- 74.1)], zoom_start = 9,
            tiles = ''OpenStreetMap'', overlays = [], fitted = None \<rparr>]
   \<and> sess_of (script env_far_click session_fresh) ''gpkg_path'' = None
   \<and> sess_of (script env_far_click session_fresh) ''geojson'' = None"
  using export_availability [of env_A session_prev "''/tmp/old.gpkg''"
      "''bytes of /tmp/old.gpkg''" "''river1''"]
    export_availability [of env_A session_fresh "''/tmp/out.gpkg''"
      "''bytes of /tmp/out.gpkg''" "''river1''"]
    export_availability [of env_far_click session_fresh "''/tmp/out.gpkg''"
      "''bytes of /tmp/out.gpkg''" "''river1''"]
  by (simp add: env_A_def env_far_click_def click_far_def session_fresh_def session_prev_def
      click_A_def eval_script)

text \<open>
  In a session without any earlier run, a run finds its artifact but cannot read the
  primary layer: the load fails, there is no watershed, and the GeoPackage download is
  offered all the same.
\<close>

theorem raw_export_after_failed_load_counterexample:
  "session_fresh ''gpkg_path'' = None
   \<and> session_fresh ''geojson'' = None
   \<and> Err_load_failed (Exn ''unreadable'')
       \<in> set (out_of (script env_primary_unreadable session_fresh))
   \<and> sess_of (script env_primary_unreadable session_fresh) ''geojson'' = None
   \<and> Download_gpkg ''bytes of /tmp/out.gpkg'' ''/tmp/out.gpkg''
       \<in> set (out_of (script env_primary_unreadable session_fresh))"
  by (simp add: env_primary_unreadable_def env_A_def session_fresh_def click_A_def eval_script)

end
